theory Spec2Isabelle
  imports Complex_Main "HOL-Library.Word"
begin

section \<open>SillyPCAP: the capture parser of \<^verbatim>\<open>sillypcap.py\<close>\<close>

text \<open>
  The development embeds the parsing core of \<^verbatim>\<open>CognitivePCAPParser\<close>:
  \<^verbatim>\<open>detect_format\<close>, \<^verbatim>\<open>parse_file\<close>, \<^verbatim>\<open>_parse_classic_pcap\<close>,
  \<^verbatim>\<open>_parse_pcapng\<close>, \<^verbatim>\<open>_parse_pcapng_fallback\<close>, \<^verbatim>\<open>_parse_with_dpkt\<close>
  and \<^verbatim>\<open>SillyPCAP.load_pcap\<close>. Python's leading underscore is dropped from the
  method names.

  Conventions of the model:
  \<^item> a file is its byte content; \<^verbatim>\<open>f.read(n)\<close> on a handle is \<open>take n\<close> of the bytes not
    yet consumed, and the rest is passed on;
  \<^item> the integers \<^verbatim>\<open>struct.unpack\<close> returns are naturals (Python integers do not wrap);
  \<^item> a timestamp is the exact value of the Python expression, as a real number; the
    rounding of IEEE doubles is not modelled;
  \<^item> an exception is a value of type \<open>exn\<close>; a method returns \<open>Returned s\<close> or
    \<open>Raised e s\<close>, where \<open>s\<close> is the parser object as the method left it (a raise
    does not undo the appends made before it);
  \<^item> \<^verbatim>\<open>dpkt\<close>, the interpreter's \<^verbatim>\<open>float()\<close> and \<^verbatim>\<open>str()\<close>, and the file
    system are not part of the repository: they are fields of the environment \<open>env\<close>;
  \<^item> logging, the entropy field (\<^verbatim>\<open>_update_entropy_field\<close> swallows every exception
    and touches only \<^verbatim>\<open>entropy_field\<close>) and the measurement attributes of a packet
    (\<^verbatim>\<open>state\<close>, \<^verbatim>\<open>observables\<close>) are left out: no parsing decision reads them.
\<close>

subsection \<open>Bytes and \<^verbatim>\<open>struct.unpack\<close>\<close>

type_synonym byte = "8 word"
type_synonym bytes = "byte list"

text \<open>The value of a byte string read as a little-endian unsigned integer.\<close>

fun le_val :: "bytes \<Rightarrow> nat" where
  "le_val [] = 0"
| "le_val (b # bs) = unat b + 256 * le_val bs"

text \<open>
  \<^verbatim>\<open>struct.unpack('<I', bs)[0]\<close> and \<^verbatim>\<open>struct.unpack('>I', bs)[0]\<close> on a string of
  four bytes; the flag says whether the format is little-endian.
\<close>

definition unpack_I :: "bool \<Rightarrow> bytes \<Rightarrow> nat" where
  "unpack_I le bs = (if le then le_val bs else le_val (rev bs))"

text \<open>\<^verbatim>\<open>struct.unpack('<IIII', hdr)\<close> on the sixteen bytes of a record header.\<close>

definition unpack_IIII :: "bool \<Rightarrow> bytes \<Rightarrow> nat \<times> nat \<times> nat \<times> nat" where
  "unpack_IIII le hdr =
     (unpack_I le (take 4 hdr),
      unpack_I le (take 4 (drop 4 hdr)),
      unpack_I le (take 4 (drop 8 hdr)),
      unpack_I le (take 4 (drop 12 hdr)))"

text \<open>
  \<^verbatim>\<open>struct.unpack('<IHHIIII', global_header)\<close>: \<^verbatim>\<open>struct.error\<close> (here \<open>None\<close>) unless
  the string has exactly 24 bytes.
\<close>

definition unpack_IHHIIII ::
  "bool \<Rightarrow> bytes \<Rightarrow> (nat \<times> nat \<times> nat \<times> nat \<times> nat \<times> nat \<times> nat) option" where
  "unpack_IHHIIII le gh =
     (if length gh \<noteq> 24 then None
      else Some (unpack_I le (take 4 gh),
                 unpack_I le (take 2 (drop 4 gh)),
                 unpack_I le (take 2 (drop 6 gh)),
                 unpack_I le (take 4 (drop 8 gh)),
                 unpack_I le (take 4 (drop 12 gh)),
                 unpack_I le (take 4 (drop 16 gh)),
                 unpack_I le (take 4 (drop 20 gh))))"

subsection \<open>Exceptions, Python values, packets\<close>

datatype exn =
    FileNotFoundError
  | PermissionError
  | TypeError
  | StructError
  | ValueError msg
  | ForeignError nat
and msg =
    NoFilenameProvided
  | UnknownFileFormat string
  | PcapngRequiresDpkt
  | DpktNotAvailable
  | NoPacketsFound
  | CouldNotParsePcapng exn
  | FileIsEmpty
  | CouldNotConvertToFloat

text \<open>
  \<open>ForeignError\<close> stands for whatever \<^verbatim>\<open>dpkt\<close> raises. The values a packet is built
  from: \<^verbatim>\<open>None\<close>, a byte string or a float.
\<close>

datatype pyval = PyNone | PyBytes bytes | PyFloat real

record QuantumPacket =
  raw_data :: bytes
  timestamp :: real
  interface_id :: int

datatype endian = little | big | unknown

datatype format_type = classic | nanosecond | pcapng | wireless_cap

text \<open>
  \<^verbatim>\<open>format_info\<close> is a dictionary; a key that is absent is \<open>None\<close> here. The magic is
  kept as a number (the source stores its hexadecimal rendering), the version as the
  pair the source renders as \<^verbatim>\<open>major.minor\<close>.
\<close>

record format_info =
  fi_magic :: "nat option"
  fi_version :: "(nat \<times> nat) option"
  fi_snaplen :: "nat option"
  fi_network :: "nat option"
  fi_format :: "format_type option"
  fi_endian :: "endian option"
  fi_interfaces :: "(nat \<times> nat \<times> nat) list option"
  fi_parsed_with :: "string option"

definition empty_info :: format_info where
  "empty_info = \<lparr>fi_magic = None, fi_version = None, fi_snaplen = None, fi_network = None,
     fi_format = None, fi_endian = None, fi_interfaces = None, fi_parsed_with = None\<rparr>"

text \<open>The parser object: the attributes of \<^verbatim>\<open>CognitivePCAPParser\<close> that parsing reads or writes.\<close>

record parser =
  filename :: "string option"
  packets :: "QuantumPacket list"
  format_info :: format_info

datatype outcome = Returned parser | Raised exn parser

subsection \<open>The environment\<close>

text \<open>
  A path names no file, a file that cannot be opened, or a readable file.
  \<^verbatim>\<open>os.path.exists\<close> and \<^verbatim>\<open>os.path.getsize\<close> do not open the file.
\<close>

datatype fs_entry = Absent | Denied bytes | Readable bytes

text \<open>
  What one use of a \<^verbatim>\<open>dpkt\<close> reader does: the constructor may raise; the reader may
  have an \<^verbatim>\<open>interfaces\<close> attribute (pairs of snaplen and linktype); iteration yields
  pairs and then either stops or raises.
\<close>

record dpkt_run =
  ctor_error :: "exn option"
  ifaces :: "(nat \<times> nat) list option"
  yielded :: "(pyval \<times> pyval) list"
  iter_error :: "exn option"

record env =
  DPKT_AVAILABLE :: bool
  fs :: "string \<Rightarrow> fs_entry"
  dpkt_pcap_Reader :: "bytes \<Rightarrow> dpkt_run"
  dpkt_pcapng_Reader :: "bytes \<Rightarrow> dpkt_run"
  py_float :: "bytes \<Rightarrow> real option"
  py_str :: "real \<Rightarrow> bytes"

text \<open>\<^verbatim>\<open>open(filename, 'rb')\<close> followed by reading: the content, or the exception.\<close>

definition open_rb :: "env \<Rightarrow> string option \<Rightarrow> exn + bytes" where
  "open_rb E name =
     (case name of
        None \<Rightarrow> Inl TypeError
      | Some p \<Rightarrow>
          (case fs E p of
             Absent \<Rightarrow> Inl FileNotFoundError
           | Denied _ \<Rightarrow> Inl PermissionError
           | Readable content \<Rightarrow> Inr content))"

text \<open>
  \<^verbatim>\<open>QuantumPacket(raw_data, timestamp)\<close>: \<^verbatim>\<open>_set_raw_data\<close> keeps bytes, turns
  \<^verbatim>\<open>None\<close> into the empty string and a number into the bytes of its \<^verbatim>\<open>str()\<close>;
  the timestamp is \<^verbatim>\<open>float(timestamp)\<close>, or 0.0 for \<^verbatim>\<open>None\<close>, and \<^verbatim>\<open>float()\<close> of
  a byte string raises \<^verbatim>\<open>ValueError\<close> unless the string spells a number.
\<close>

definition new_QuantumPacket :: "env \<Rightarrow> pyval \<Rightarrow> pyval \<Rightarrow> exn + QuantumPacket" where
  "new_QuantumPacket E raw ts =
     (let data = (case raw of PyNone \<Rightarrow> [] | PyBytes b \<Rightarrow> b | PyFloat r \<Rightarrow> py_str E r) in
      case ts of
        PyNone \<Rightarrow> Inr \<lparr>raw_data = data, timestamp = 0, interface_id = 0\<rparr>
      | PyFloat r \<Rightarrow> Inr \<lparr>raw_data = data, timestamp = r, interface_id = 0\<rparr>
      | PyBytes b \<Rightarrow>
          (case py_float E b of
             None \<Rightarrow> Inl (ValueError CouldNotConvertToFloat)
           | Some r \<Rightarrow> Inr \<lparr>raw_data = data, timestamp = r, interface_id = 0\<rparr>))"

subsection \<open>\<^verbatim>\<open>detect_format\<close>\<close>

text \<open>\<^verbatim>\<open>PCAP_MAGIC_NUMBERS\<close>, in the insertion order the loop iterates in.\<close>

definition PCAP_MAGIC_NUMBERS :: "(nat \<times> endian \<times> format_type) list" where
  "PCAP_MAGIC_NUMBERS =
     [(0xa1b2c3d4, little, classic),
      (0xd4c3b2a1, big, classic),
      (0xa1b23c4d, little, nanosecond),
      (0x4d3cb2a1, big, nanosecond),
      (0x0a0d0d0a, little, pcapng)]"

text \<open>The \<^verbatim>\<open>for magic, (endian, format_type) in PCAP_MAGIC_NUMBERS.items()\<close> loop.\<close>

fun match_magic ::
  "nat \<Rightarrow> nat \<Rightarrow> (nat \<times> endian \<times> format_type) list \<Rightarrow> (endian \<times> format_type) option" where
  "match_magic magic_le magic_be [] = None"
| "match_magic magic_le magic_be ((magic, r) # rest) =
     (if magic_le = magic then Some r
      else if magic_be = magic then Some r
      else match_magic magic_le magic_be rest)"

definition detect_format :: "env \<Rightarrow> string option \<Rightarrow> endian option \<times> format_type option" where
  "detect_format E name =
     (case open_rb E name of
        Inl e \<Rightarrow> (None, None)
      | Inr content \<Rightarrow>
          (let magic_bytes = take 4 content in
           if length magic_bytes < 4 then (None, None)
           else
             (let magic_le = unpack_I True magic_bytes;
                  magic_be = unpack_I False magic_bytes in
              case match_magic magic_le magic_be PCAP_MAGIC_NUMBERS of
                Some (en, ft) \<Rightarrow> (Some en, Some ft)
              | None \<Rightarrow>
                  if take 2 magic_bytes = [0xff, 0xff] then (Some unknown, Some wireless_cap)
                  else (None, None))))"

text \<open>
  The constructor on a byte string and a float, which is how the classic reader and the
  scanning reader call it: it cannot raise there.
\<close>

definition mk_packet :: "bytes \<Rightarrow> real \<Rightarrow> QuantumPacket" where
  "mk_packet data ts = \<lparr>raw_data = data, timestamp = ts, interface_id = 0\<rparr>"

subsection \<open>\<^verbatim>\<open>_parse_with_dpkt\<close>\<close>

text \<open>
  The \<^verbatim>\<open>for ... in reader\<close> loops. \<^verbatim>\<open>_parse_pcapng\<close> unpacks a yielded pair as
  \<^verbatim>\<open>buf, ts\<close> (\<open>buf_first\<close>), \<^verbatim>\<open>_parse_with_dpkt\<close> as \<^verbatim>\<open>ts, buf\<close>; both call
  \<^verbatim>\<open>QuantumPacket(buf, ts)\<close>. The result is the packet list and the exception that
  ended the loop, if one did.
\<close>

fun reader_loop ::
  "env \<Rightarrow> bool \<Rightarrow> (pyval \<times> pyval) list \<Rightarrow> QuantumPacket list \<Rightarrow> QuantumPacket list \<times> exn option" where
  "reader_loop E buf_first [] pkts = (pkts, None)"
| "reader_loop E buf_first ((a, b) # rest) pkts =
     (case new_QuantumPacket E (if buf_first then a else b) (if buf_first then b else a) of
        Inl e \<Rightarrow> (pkts, Some e)
      | Inr q \<Rightarrow> reader_loop E buf_first rest (pkts @ [q]))"

definition pcapng_magic :: bytes where
  "pcapng_magic = [0x0a, 0x0d, 0x0d, 0x0a]"

definition parse_with_dpkt :: "env \<Rightarrow> parser \<Rightarrow> outcome" where
  "parse_with_dpkt E self =
     (if \<not> DPKT_AVAILABLE E then Raised (ValueError DpktNotAvailable) self
      else
        case open_rb E (filename self) of
          Inl e \<Rightarrow> Raised e self
        | Inr content \<Rightarrow>
            (let magic = take 4 content;
                 reader = (if magic = pcapng_magic then dpkt_pcapng_Reader E content
                           else dpkt_pcap_Reader E content) in
             case ctor_error reader of
               Some e \<Rightarrow> Raised e self
             | None \<Rightarrow>
                 (case reader_loop E False (yielded reader) (packets self) of
                    (pkts, Some e) \<Rightarrow> Raised e (self\<lparr>packets := pkts\<rparr>)
                  | (pkts, None) \<Rightarrow>
                      (case iter_error reader of
                         Some e \<Rightarrow> Raised e (self\<lparr>packets := pkts\<rparr>)
                       | None \<Rightarrow>
                           Returned (self\<lparr>packets := pkts,
                             format_info := (format_info self)\<lparr>fi_parsed_with := Some ''dpkt''\<rparr>\<rparr>)))))"

subsection \<open>\<^verbatim>\<open>_parse_classic_pcap\<close>\<close>

text \<open>
  The record loop (\<^verbatim>\<open>while True\<close>), on the bytes that follow the global header.
  \<open>le\<close> is \<^verbatim>\<open>endian == "little"\<close>, \<open>nano\<close> is \<^verbatim>\<open>nanosecond_precision\<close>.
\<close>

function classic_loop :: "bool \<Rightarrow> bool \<Rightarrow> bytes \<Rightarrow> QuantumPacket list \<Rightarrow> QuantumPacket list" where
  "classic_loop le nano rest pkts =
     (if length (take 16 rest) < 16 then pkts
      else
        (case unpack_IIII le (take 16 rest) of
           (ts_sec, ts_frac, incl_len, orig_len) \<Rightarrow>
             (let ts = (if nano then real ts_sec + real ts_frac / 1000000000
                        else real ts_sec + real ts_frac / 1000000);
                  packet_data = take incl_len (drop 16 rest);
                  padded = (if length packet_data < incl_len
                            then packet_data @ replicate (incl_len - length packet_data) 0
                            else packet_data)
              in classic_loop le nano (drop incl_len (drop 16 rest)) (pkts @ [mk_packet padded ts]))))"
  by pat_completeness auto
termination
  by (relation "measure (\<lambda>(le, nano, rest, pkts). length rest)") auto

text \<open>The body of the \<^verbatim>\<open>try\<close> block.\<close>

definition classic_attempt :: "env \<Rightarrow> endian option \<Rightarrow> format_type option \<Rightarrow> parser \<Rightarrow> outcome" where
  "classic_attempt E en ft self =
     (case open_rb E (filename self) of
        Inl e \<Rightarrow> Raised e self
      | Inr content \<Rightarrow>
          (let global_header = take 24 content;
               le = (en = Some little) in
           case unpack_IHHIIII le global_header of
             None \<Rightarrow> Raised StructError self
           | Some (magic, version_major, version_minor, thiszone, sigfigs, snaplen, network) \<Rightarrow>
               (let info = \<lparr>fi_magic = Some magic,
                            fi_version = Some (version_major, version_minor),
                            fi_snaplen = Some snaplen,
                            fi_network = Some network,
                            fi_format = ft,
                            fi_endian = en,
                            fi_interfaces = None,
                            fi_parsed_with = None\<rparr>;
                    nanosecond_precision = (ft = Some nanosecond)
                in Returned (self\<lparr>format_info := info,
                     packets := classic_loop le nanosecond_precision (drop 24 content) (packets self)\<rparr>))))"

definition parse_classic_pcap :: "env \<Rightarrow> endian option \<Rightarrow> format_type option \<Rightarrow> parser \<Rightarrow> outcome" where
  "parse_classic_pcap E en ft self =
     (case classic_attempt E en ft self of
        Returned s \<Rightarrow> Returned s
      | Raised e s \<Rightarrow> if DPKT_AVAILABLE E then parse_with_dpkt E s else Raised e s)"

subsection \<open>\<^verbatim>\<open>_parse_pcapng_fallback\<close>\<close>

text \<open>
  One iteration of the \<^verbatim>\<open>while pos < len(data)\<close> loop, entered with \<open>pos < length data\<close>:
  \<open>None\<close> is \<^verbatim>\<open>break\<close>; otherwise the next offset and the packets this iteration
  appended (none or one). The four-byte slices lie inside the buffer, so no
  \<^verbatim>\<open>struct.unpack\<close> of the loop can raise.
\<close>

definition scan_block :: "bytes \<Rightarrow> nat \<Rightarrow> (nat \<times> QuantumPacket list) option" where
  "scan_block data pos =
     (if pos + 16 \<le> length data then
        (let block_type = unpack_I True (take 4 (drop pos data));
             block_len = unpack_I True (take 4 (drop (pos + 4) data)) in
         if block_len = 0 \<or> block_len > length data - pos then None
         else
           (let found =
                  (if block_type = 0x00000006 \<and> block_len \<ge> 32 then
                     (let packet_start = pos + 16;
                          incl_len = unpack_I True (take 4 (drop (pos + 12) data)) in
                      if packet_start + incl_len \<le> length data then
                        (let packet_data = take incl_len (drop packet_start data);
                             ts_high = unpack_I True (take 4 (drop (pos + 8) data));
                             ts_low = unpack_I True (take 4 (drop (pos + 12) data));
                             ts_combined = or (push_bit 32 ts_high) ts_low;
                             ts = real ts_combined / 1000000
                         in [mk_packet packet_data ts])
                      else [])
                   else []);
                pos1 = pos + block_len;
                pos2 = (if block_len mod 4 \<noteq> 0 then pos1 + (4 - block_len mod 4) else pos1)
            in Some (pos2, found)))
      else None)"

text \<open>The loop: the packet list and \<^verbatim>\<open>packet_count\<close> when it exits.\<close>

function scan_loop ::
  "bytes \<Rightarrow> nat \<Rightarrow> QuantumPacket list \<Rightarrow> nat \<Rightarrow> QuantumPacket list \<times> nat" where
  "scan_loop data pos pkts packet_count =
     (if pos < length data then
        (case scan_block data pos of
           None \<Rightarrow> (pkts, packet_count)
         | Some (pos', found) \<Rightarrow> scan_loop data pos' (pkts @ found) (packet_count + length found))
      else (pkts, packet_count))"
  by pat_completeness auto
termination
  by (relation "measure (\<lambda>(data, pos, pkts, n). length data - pos)")
     (auto simp: scan_block_def Let_def split: if_splits)

text \<open>
  The number of iterations the loop makes from offset \<open>pos\<close>: the same control flow as
  \<open>scan_loop\<close>, counting instead of collecting.
\<close>

function scan_iterations :: "bytes \<Rightarrow> nat \<Rightarrow> nat" where
  "scan_iterations data pos =
     (if pos < length data then
        (case scan_block data pos of
           None \<Rightarrow> 1
         | Some (pos', found) \<Rightarrow> 1 + scan_iterations data pos')
      else 0)"
  by pat_completeness auto
termination
  by (relation "measure (\<lambda>(data, pos). length data - pos)")
     (auto simp: scan_block_def Let_def split: if_splits)

definition parse_pcapng_fallback :: "env \<Rightarrow> parser \<Rightarrow> outcome" where
  "parse_pcapng_fallback E self =
     (case open_rb E (filename self) of
        Inl e \<Rightarrow> Raised (ValueError (CouldNotParsePcapng e)) self
      | Inr data \<Rightarrow>
          (case scan_loop data 0 (packets self) 0 of
             (pkts, packet_count) \<Rightarrow>
               if packet_count > 0 then Returned (self\<lparr>packets := pkts\<rparr>)
               else Raised (ValueError (CouldNotParsePcapng (ValueError NoPacketsFound)))
                      (self\<lparr>packets := pkts\<rparr>)))"

subsection \<open>\<^verbatim>\<open>_parse_pcapng\<close>\<close>

text \<open>The body of the \<^verbatim>\<open>try\<close> block.\<close>

definition pcapng_attempt :: "env \<Rightarrow> parser \<Rightarrow> outcome" where
  "pcapng_attempt E self =
     (case open_rb E (filename self) of
        Inl e \<Rightarrow> Raised e self
      | Inr content \<Rightarrow>
          (let reader = dpkt_pcapng_Reader E content in
           case ctor_error reader of
             Some e \<Rightarrow> Raised e self
           | None \<Rightarrow>
               (let descr = (case ifaces reader of
                               None \<Rightarrow> []
                             | Some xs \<Rightarrow> map (\<lambda>(i, (sl, lt)). (i, sl, lt)) (enumerate 0 xs));
                    info = \<lparr>fi_magic = None, fi_version = None, fi_snaplen = None,
                            fi_network = None, fi_format = Some pcapng, fi_endian = None,
                            fi_interfaces = Some descr, fi_parsed_with = None\<rparr>;
                    self1 = self\<lparr>format_info := info\<rparr>
                in case reader_loop E True (yielded reader) (packets self1) of
                     (pkts, Some e) \<Rightarrow> Raised e (self1\<lparr>packets := pkts\<rparr>)
                   | (pkts, None) \<Rightarrow>
                       (case iter_error reader of
                          Some e \<Rightarrow> Raised e (self1\<lparr>packets := pkts\<rparr>)
                        | None \<Rightarrow> Returned (self1\<lparr>packets := pkts\<rparr>)))))"

definition parse_pcapng :: "env \<Rightarrow> parser \<Rightarrow> outcome" where
  "parse_pcapng E self =
     (if \<not> DPKT_AVAILABLE E then Raised (ValueError PcapngRequiresDpkt) self
      else
        case pcapng_attempt E self of
          Returned s \<Rightarrow> Returned s
        | Raised e s \<Rightarrow> parse_pcapng_fallback E s)"

subsection \<open>\<^verbatim>\<open>parse_file\<close> and \<^verbatim>\<open>load_pcap\<close>\<close>

text \<open>\<^verbatim>\<open>if filename:\<close> holds for a string that is not empty; \<^verbatim>\<open>None\<close> is no argument.\<close>

definition truthy :: "string option \<Rightarrow> bool" where
  "truthy name = (case name of None \<Rightarrow> False | Some p \<Rightarrow> p \<noteq> [])"

definition parse_file :: "env \<Rightarrow> string option \<Rightarrow> parser \<Rightarrow> outcome" where
  "parse_file E name self0 =
     (let self = (if truthy name then self0\<lparr>filename := name\<rparr> else self0) in
      if \<not> truthy (filename self) then Raised (ValueError NoFilenameProvided) self
      else
        (case detect_format E (filename self) of
           (en, ft) \<Rightarrow>
             if ft = Some pcapng then parse_pcapng E self
             else if ft = Some classic \<or> ft = Some nanosecond then parse_classic_pcap E en ft self
             else if DPKT_AVAILABLE E then parse_with_dpkt E self
             else Raised (ValueError (UnknownFileFormat (the (filename self)))) self))"

text \<open>
  \<^verbatim>\<open>SillyPCAP.load_pcap\<close>, on the parser the application object owns.
\<close>

definition load_pcap :: "env \<Rightarrow> string \<Rightarrow> parser \<Rightarrow> outcome" where
  "load_pcap E name self =
     (case fs E name of
        Absent \<Rightarrow> Raised FileNotFoundError self
      | Denied content \<Rightarrow>
          if length content = 0 then Raised (ValueError FileIsEmpty) self
          else parse_file E (Some name) self
      | Readable content \<Rightarrow>
          if length content = 0 then Raised (ValueError FileIsEmpty) self
          else parse_file E (Some name) self)"

subsection \<open>Observing an outcome\<close>

fun raised :: "outcome \<Rightarrow> exn option" where
  "raised (Returned s) = None"
| "raised (Raised e s) = Some e"

fun final :: "outcome \<Rightarrow> parser" where
  "final (Returned s) = s"
| "final (Raised e s) = s"

text \<open>\<^verbatim>\<open>CognitivePCAPParser()\<close>: no filename, no packets, an empty \<^verbatim>\<open>format_info\<close>.\<close>

definition new_parser :: parser where
  "new_parser = \<lparr>filename = None, packets = [], format_info = empty_info\<rparr>"

section \<open>Capture files, written out\<close>

text \<open>
  The claims speak of files that hold given records. These definitions build such files:
  \<^verbatim>\<open>struct.pack\<close> for the two integer widths of the headers, a record header, a record
  with its payload, the global header. They follow the file format, not the parser.
\<close>

definition pack_I :: "bool \<Rightarrow> nat \<Rightarrow> bytes" where
  "pack_I le v =
     (let b0 = of_nat (v mod 256); b1 = of_nat (v div 256 mod 256);
          b2 = of_nat (v div 65536 mod 256); b3 = of_nat (v div 16777216 mod 256)
      in if le then [b0, b1, b2, b3] else [b3, b2, b1, b0])"

definition pack_H :: "bool \<Rightarrow> nat \<Rightarrow> bytes" where
  "pack_H le v =
     (let b0 = of_nat (v mod 256); b1 = of_nat (v div 256 mod 256)
      in if le then [b0, b1] else [b1, b0])"

record pcap_record =
  rec_sec :: nat
  rec_frac :: nat
  rec_data :: bytes
  rec_orig_len :: nat

definition record_header :: "bool \<Rightarrow> nat \<Rightarrow> nat \<Rightarrow> nat \<Rightarrow> nat \<Rightarrow> bytes" where
  "record_header le s f incl orig = pack_I le s @ pack_I le f @ pack_I le incl @ pack_I le orig"

definition encode_record :: "bool \<Rightarrow> pcap_record \<Rightarrow> bytes" where
  "encode_record le r =
     record_header le (rec_sec r) (rec_frac r) (length (rec_data r)) (rec_orig_len r) @ rec_data r"

text \<open>The fields of a record fit their 32 bits.\<close>

definition wf_record :: "pcap_record \<Rightarrow> bool" where
  "wf_record r \<longleftrightarrow>
     rec_sec r < 2 ^ 32 \<and> rec_frac r < 2 ^ 32 \<and> length (rec_data r) < 2 ^ 32
     \<and> rec_orig_len r < 2 ^ 32"

definition global_header :: "bool \<Rightarrow> nat \<Rightarrow> nat \<Rightarrow> nat \<Rightarrow> nat \<Rightarrow> nat \<Rightarrow> nat \<Rightarrow> nat \<Rightarrow> bytes" where
  "global_header le magic vmaj vmin thiszone sigfigs snaplen network =
     pack_I le magic @ pack_H le vmaj @ pack_H le vmin @ pack_I le thiszone
     @ pack_I le sigfigs @ pack_I le snaplen @ pack_I le network"

text \<open>The packet a record stands for: its payload, and its time at the file's resolution.\<close>

definition record_time :: "bool \<Rightarrow> nat \<Rightarrow> nat \<Rightarrow> real" where
  "record_time nano s f = real s + real f / (if nano then 1000000000 else 1000000)"

definition frame_of :: "bool \<Rightarrow> pcap_record \<Rightarrow> QuantumPacket" where
  "frame_of nano r = mk_packet (rec_data r) (record_time nano (rec_sec r) (rec_frac r))"

text \<open>A file system that holds one file, and an interpreter without \<^verbatim>\<open>dpkt\<close>.\<close>

definition single_file :: "string \<Rightarrow> fs_entry \<Rightarrow> string \<Rightarrow> fs_entry" where
  "single_file name entry = (\<lambda>p. if p = name then entry else Absent)"

definition no_reader :: "bytes \<Rightarrow> dpkt_run" where
  "no_reader = (\<lambda>content. \<lparr>ctor_error = Some (ForeignError 0), ifaces = None, yielded = [],
     iter_error = None\<rparr>)"

definition without_dpkt :: "(string \<Rightarrow> fs_entry) \<Rightarrow> env" where
  "without_dpkt files = \<lparr>DPKT_AVAILABLE = False, fs = files, dpkt_pcap_Reader = no_reader,
     dpkt_pcapng_Reader = no_reader, py_float = (\<lambda>b. None), py_str = (\<lambda>r. [])\<rparr>"

text \<open>
  The scenario of the specification: a little-endian classic file, version 2.4, snapshot
  length 65535, link type 1. Its first record is stamped (1700000000, 500000) and carries
  fourteen zero bytes followed by the IPv4 ethertype.
\<close>

definition scenario_header :: bytes where
  "scenario_header = global_header True 0xa1b2c3d4 2 4 0 0 65535 1"

definition scenario_record :: pcap_record where
  "scenario_record = \<lparr>rec_sec = 1700000000, rec_frac = 500000,
     rec_data = replicate 14 0 @ [0x08, 0x00], rec_orig_len = 16\<rparr>"

definition capture_env :: "bytes \<Rightarrow> env" where
  "capture_env content = without_dpkt (single_file ''capture.pcap'' (Readable content))"

definition capture_parser :: parser where
  "capture_parser = new_parser\<lparr>filename := Some ''capture.pcap''\<rparr>"

section \<open>Facts about the readers\<close>

declare classic_loop.simps [simp del]
declare scan_loop.simps [simp del]
declare scan_iterations.simps [simp del]

lemma unat_byte: "unat (of_nat n :: byte) = n mod 256"
  by (simp add: unat_of_nat)

lemma base256_digits:
  fixes v :: nat
  assumes "v < 2 ^ 32"
  shows "v mod 256 + 256 * (v div 256 mod 256 + 256 * (v div 65536 mod 256
           + 256 * (v div 16777216 mod 256))) = v"
proof -
  define q1 where "q1 = v div 256"
  define q2 where "q2 = q1 div 256"
  define q3 where "q3 = q2 div 256"
  have e2: "v div 65536 = q2"
    unfolding q2_def q1_def by (simp add: div_mult2_eq [symmetric])
  have e3: "v div 16777216 = q3"
    unfolding q3_def q2_def q1_def by (simp add: div_mult2_eq [symmetric])
  have "q3 < 256" using assms unfolding e3 [symmetric] by simp
  then have m3: "q3 mod 256 = q3" by simp
  have d1: "v = v mod 256 + 256 * q1" unfolding q1_def by simp
  have d2: "q1 = q1 mod 256 + 256 * q2" unfolding q2_def by simp
  have d3: "q2 = q2 mod 256 + 256 * q3" unfolding q3_def by simp
  have "v mod 256 + 256 * (q1 mod 256 + 256 * (q2 mod 256 + 256 * (q3 mod 256))) = v"
    unfolding m3 using d1 d2 d3 by simp
  then show ?thesis unfolding e2 e3 q1_def [symmetric] .
qed

lemma unpack_pack_I: "v < 2 ^ 32 \<Longrightarrow> unpack_I le (pack_I le v) = v"
  using base256_digits [of v]
  by (simp add: unpack_I_def pack_I_def Let_def unat_byte)

lemma length_pack_I [simp]: "length (pack_I le v) = 4"
  by (simp add: pack_I_def Let_def)

lemma length_pack_H [simp]: "length (pack_H le v) = 2"
  by (simp add: pack_H_def Let_def)

lemma length_record_header [simp]: "length (record_header le a b c d) = 16"
  by (simp add: record_header_def)

lemma length_global_header [simp]: "length (global_header le m a b c d e f) = 24"
  by (simp add: global_header_def)

lemma unpack_record_header:
  "\<lbrakk>a < 2 ^ 32; b < 2 ^ 32; c < 2 ^ 32; d < 2 ^ 32\<rbrakk>
   \<Longrightarrow> unpack_IIII le (record_header le a b c d) = (a, b, c, d)"
  by (simp add: unpack_IIII_def record_header_def unpack_pack_I)

lemma classic_loop_short:
  "length rest < 16 \<Longrightarrow> classic_loop le nano rest pkts = pkts"
  by (subst classic_loop.simps) simp

lemma classic_loop_header:
  assumes "a < 2 ^ 32" "b < 2 ^ 32" "c < 2 ^ 32" "d < 2 ^ 32"
  shows "classic_loop le nano (record_header le a b c d @ rest) pkts =
         classic_loop le nano (drop c rest)
           (pkts @ [mk_packet (take c rest @ replicate (c - length rest) 0) (record_time nano a b)])"
  using assms
  by (subst classic_loop.simps) (simp add: unpack_record_header record_time_def Let_def)

lemma classic_loop_record:
  "wf_record r \<Longrightarrow>
   classic_loop le nano (encode_record le r @ rest) pkts =
   classic_loop le nano rest (pkts @ [frame_of nano r])"
  by (simp add: encode_record_def wf_record_def classic_loop_header frame_of_def)

lemma classic_loop_records:
  "\<forall>r \<in> set rs. wf_record r \<Longrightarrow>
   classic_loop le nano (concat (map (encode_record le) rs) @ rest) pkts =
   classic_loop le nano rest (pkts @ map (frame_of nano) rs)"
proof (induction rs arbitrary: pkts)
  case Nil
  then show ?case by simp
next
  case (Cons r rs)
  then show ?case by (simp add: classic_loop_record)
qed

lemma open_capture [simp]:
  "open_rb (capture_env content) (filename capture_parser) = Inr content"
  by (simp add: open_rb_def capture_env_def capture_parser_def new_parser_def
      without_dpkt_def single_file_def)

lemma wf_scenario_record [simp]: "wf_record scenario_record"
  by (simp add: wf_record_def scenario_record_def)

lemma length_scenario_header [simp]: "length scenario_header = 24"
  by (simp add: scenario_header_def)

lemma classic_attempt_records:
  assumes src: "open_rb E (filename self) =
                  Inr (gh @ concat (map (encode_record (en = Some little)) rs) @ rest)"
    and gh: "length gh = 24"
    and wf: "\<forall>r \<in> set rs. wf_record r"
  shows "\<exists>s. classic_attempt E en ft self = Returned s \<and>
     packets s = classic_loop (en = Some little) (ft = Some nanosecond) rest
                    (packets self @ map (frame_of (ft = Some nanosecond)) rs)"
  using gh wf
  by (simp add: classic_attempt_def src unpack_IHHIIII_def Let_def classic_loop_records)

section \<open>The claims\<close>

subsection \<open>C5: fewer than sixteen bytes at a record boundary\<close>

text \<open>
  Claim C5. Let a classic file consist of a 24-byte global header, the records \<open>rs\<close>
  written in the byte order the reader is given, and a tail of fewer than 16 bytes where
  the next record header would start. Then \<^verbatim>\<open>_parse_classic_pcap\<close> returns without
  raising, and the packets it leaves are the earlier packets followed by exactly one packet
  per record of \<open>rs\<close>, in file order: nothing is emitted for the tail.
\<close>

theorem classic_reader_stops_at_short_header:
  assumes src: "open_rb E (filename self) =
                  Inr (gh @ concat (map (encode_record (en = Some little)) rs) @ tail)"
    and gh: "length gh = 24"
    and wf: "\<forall>r \<in> set rs. wf_record r"
    and short: "length tail < 16"
  shows "raised (parse_classic_pcap E en ft self) = None \<and>
         packets (final (parse_classic_pcap E en ft self)) =
           packets self @ map (frame_of (ft = Some nanosecond)) rs"
proof -
  obtain s where "classic_attempt E en ft self = Returned s"
    and "packets s = classic_loop (en = Some little) (ft = Some nanosecond) tail
                    (packets self @ map (frame_of (ft = Some nanosecond)) rs)"
    using classic_attempt_records [OF src gh wf] by blast
  then show ?thesis
    using short by (simp add: parse_classic_pcap_def classic_loop_short)
qed

text \<open>The scenario's first record followed by three stray bytes.\<close>

theorem classic_reader_stops_at_short_header_witness:
  "length scenario_header = 24 \<and> wf_record scenario_record
   \<and> length [7, 7, 7 :: byte] < 16
   \<and> raised (parse_classic_pcap
        (capture_env (scenario_header @ concat (map (encode_record True) [scenario_record])
           @ [7, 7, 7]))
        (Some little) (Some classic) capture_parser) = None
   \<and> packets (final (parse_classic_pcap
        (capture_env (scenario_header @ concat (map (encode_record True) [scenario_record])
           @ [7, 7, 7]))
        (Some little) (Some classic) capture_parser)) = [frame_of False scenario_record]"
proof -
  have h1: "length scenario_header = 24" by simp
  have h2: "\<forall>r \<in> set [scenario_record]. wf_record r" by simp
  have h3: "length [7, 7, 7 :: byte] < 16" by simp
  have src: "open_rb (capture_env (scenario_header
         @ concat (map (encode_record True) [scenario_record]) @ [7, 7, 7]))
       (filename capture_parser) =
     Inr (scenario_header
         @ concat (map (encode_record (Some little = Some little)) [scenario_record])
         @ [7, 7, 7])"
    by simp
  show ?thesis
    using h1 h2 h3
      classic_reader_stops_at_short_header [OF src h1 h2 h3, where ft = "Some classic"]
    by (simp add: capture_parser_def new_parser_def)
qed

end
